theory Spec2Isabelle
  imports Complex_Main "HOL-Library.AList"
begin

section \<open>The session server of the poker table (PokerGameService.ts)\<close>

text \<open>
  The service owns one engine table and a registry of connected players, and turns every
  inbound client message into a mutation of the table followed by messages to sockets.
  The engine (the package the service imports as Table) is not among the sources. Its
  constructor, seating and leaving are taken as arbitrary functions. For starting a hand
  and for the five betting actions, the rule of the specification that says when the
  operation is refused is written out, and what an accepted operation does to the table
  is again an arbitrary function.
\<close>

subsection \<open>Numbers\<close>

text \<open>
  A JavaScript number is an IEEE 754 double. It is modelled by the rational it denotes;
  comparisons are exact, and \<open>+\<close>, \<open>-\<close> and \<open>/\<close> round the exact result to the nearest
  double, ties to the even significand. The exponent is not bounded: overflow to
  Infinity, subnormal numbers, NaN and the sign of zero are left out (chip amounts are
  far from them, and the only divisor is a winner count of at least 1).
\<close>

type_synonym number = rat

definition pow2 :: "int \<Rightarrow> rat" where
  "pow2 e = (if 0 \<le> e then 2 ^ nat e else 1 / 2 ^ nat (- e))"

text \<open>The number of binary digits of a positive integer.\<close>

function bitLength :: "int \<Rightarrow> int" where
  "bitLength n = (if n \<le> 0 then 0 else 1 + bitLength (n div 2))"
  by pat_completeness auto
termination
  by (relation "measure nat") auto

text \<open>For \<open>x > 0\<close>: the integer \<open>k\<close> with \<open>2 ^ k \<le> x < 2 ^ (k + 1)\<close>.\<close>

definition floorLog2 :: "rat \<Rightarrow> int" where
  "floorLog2 x =
     (let (p, q) = quotient_of x;
          k = bitLength p - bitLength q
      in if pow2 k \<le> x then k else k - 1)"

definition roundHalfEven :: "rat \<Rightarrow> int" where
  "roundHalfEven m =
     (let f = \<lfloor>m\<rfloor>; d = m - of_int f
      in if d < 1 / 2 then f
         else if 1 / 2 < d then f + 1
         else if even f then f else f + 1)"

text \<open>The nearest double: 53 significant bits.\<close>

definition roundDouble :: "rat \<Rightarrow> rat" where
  "roundDouble x =
     (if x = 0 then 0
      else let e = floorLog2 \<bar>x\<bar> - 52
           in sgn x * of_int (roundHalfEven (\<bar>x\<bar> / pow2 e)) * pow2 e)"

definition jsPlus :: "number \<Rightarrow> number \<Rightarrow> number" where
  "jsPlus a b = roundDouble (a + b)"

definition jsMinus :: "number \<Rightarrow> number \<Rightarrow> number" where
  "jsMinus a b = roundDouble (a - b)"

definition jsDivide :: "number \<Rightarrow> number \<Rightarrow> number" where
  "jsDivide a b = roundDouble (a / b)"

subsection \<open>What the service reads of the engine's objects\<close>

datatype playing_card = Card (rank: string) (suit: string)

text \<open>
  A Player object. The source compares players by reference (\<open>includes\<close>); \<open>ref\<close> is
  the identity of the object, so that equal records are the same object.
\<close>

record player =
  ref :: nat
  player_id :: string
  stackSize :: number
  bet :: number
  folded :: bool
  holeCards :: "playing_card list option"

datatype bettingRound = PreFlop | Flop | Turn | River

record pot =
  pot_amount :: number
  pot_winners :: "player list option"

text \<open>
  The Table object: the fields the service reads, and \<open>internals\<close> for whatever else
  the engine keeps (deck, dealer position, ...).
\<close>

record 'e poker_table =
  players :: "player option list"
  currentActor :: "player option"
  communityCards :: "playing_card list"
  smallBlind :: number
  bigBlind :: number
  currentBet :: "number option"
  lastRaise :: "number option"
  currentRound :: "bettingRound option"
  pots :: "pot list"
  winners :: "player list option"
  internals :: 'e

text \<open>
  Text built by a template literal: literal pieces and interpolated numbers, kept apart
  (the decimal printing of a number is not modelled).
\<close>

datatype frag = Lit string | Num number

type_synonym text_msg = "frag list"

text \<open>
  A call into the engine either returns or throws an Error with a message; in both cases
  the table may have been mutated.
\<close>

datatype 'e outcome = Returns "'e poker_table" | Throws text_msg "'e poker_table"

text \<open>
  The engine's part, arbitrary: the constructor, seating and leaving as they are; of
  \<open>dealCards\<close> what the engine does once enough players are seated; of the five
  actions what a legal action does to the table.
\<close>

record 'e engine =
  newTable :: "number \<Rightarrow> number \<Rightarrow> number \<Rightarrow> 'e poker_table"
  sitDown :: "string \<Rightarrow> number \<Rightarrow> 'e poker_table \<Rightarrow> 'e outcome"
  standUp :: "player \<Rightarrow> 'e poker_table \<Rightarrow> 'e outcome"
  dealCards :: "'e poker_table \<Rightarrow> 'e outcome"
  callAction :: "player \<Rightarrow> 'e poker_table \<Rightarrow> 'e poker_table"
  checkAction :: "player \<Rightarrow> 'e poker_table \<Rightarrow> 'e poker_table"
  foldAction :: "player \<Rightarrow> 'e poker_table \<Rightarrow> 'e poker_table"
  betAction :: "player \<Rightarrow> number \<Rightarrow> 'e poker_table \<Rightarrow> 'e poker_table"
  raiseAction :: "player \<Rightarrow> number \<Rightarrow> 'e poker_table \<Rightarrow> 'e poker_table"
  legalActions :: "player \<Rightarrow> 'e poker_table \<Rightarrow> string list"

subsection \<open>The service's own state and its messages\<close>

type_synonym socket = nat

record connectedPlayer =
  cp_id :: string
  cp_name :: string
  cp_socket :: socket

text \<open>
  \<open>connectedPlayers\<close> is a Map: iteration follows insertion order, \<open>set\<close> on a key that
  is present keeps its place (\<open>AList.update\<close>), \<open>get\<close> is \<open>map_of\<close>.
\<close>

type_synonym registry = "(string \<times> connectedPlayer) list"

record 'e service =
  table :: "'e poker_table"
  connectedPlayers :: registry

record playerState =
  ps_holeCards :: "playing_card list"
  ps_availableActions :: "string list"
  ps_stackSize :: number
  ps_bet :: number
  ps_isCurrentActor :: bool
  ps_communityCards :: "playing_card list"
  ps_pot :: number
  ps_currentBet :: "number option"
  ps_currentRound :: "bettingRound option"

record publicPlayer =
  pp_id :: string
  pp_name :: "string option"
  pp_stackSize :: number
  pp_bet :: number
  pp_folded :: bool
  pp_isCurrentActor :: bool

record publicState =
  pub_communityCards :: "playing_card list"
  pub_pot :: number
  pub_currentBet :: "number option"
  pub_currentActor :: "string option"
  pub_currentRound :: "bettingRound option"
  pub_players :: "publicPlayer option list"

record privateState =
  priv_holeCards :: "playing_card list option"
  priv_availableActions :: "string list"
  priv_minRaise :: number
  priv_maxBet :: number

text \<open>
  The server-to-client messages, one constructor per \<open>type\<close> and shape. A field that is
  \<open>undefined\<close> in the source (and so left out by JSON.stringify) is \<open>None\<close>.
\<close>

datatype message =
    JoinStateMsg playerState
  | PlayersMsg "publicPlayer option list"
  | PublicStateMsg publicState
  | PrivateStateMsg privateState
  | HandCompleteMsg "(string \<times> number) list option"
  | NotificationMsg text_msg
  | GameResetMsg string
  | ErrorMsg text_msg

text \<open>
  What a handler emits: a send on one socket, a broadcast to every open client of the
  server, or a line on the error console. (The \<open>console.log\<close> lines only repeat the
  sends and are left out.)
\<close>

datatype out = ToSocket socket message | ToAll message | ConsoleError text_msg

text \<open>
  The result of running a handler: whether an exception escaped it, the state it left,
  and what it emitted, in order.
\<close>

datatype 'e run = Run (crashed: bool) (state: "'e service") (sent: "out list")

datatype clientMessage =
    Join string string "number option"
  | Action string string "number option"
  | StartGame
  | Restart
  | OtherType

subsection \<open>Reading the table\<close>

text \<open>\<open>this.table.players.find((p) => p?.id === playerId)\<close>\<close>

definition findPlayer :: "'e poker_table \<Rightarrow> string \<Rightarrow> player option" where
  "findPlayer t playerId =
     (case List.find (\<lambda>p. map_option player_id p = Some playerId) (players t) of
        Some (Some p) \<Rightarrow> Some p
      | _ \<Rightarrow> None)"

text \<open>\<open>this.table.currentActor?.id === playerId\<close>\<close>

definition isCurrentActor :: "'e poker_table \<Rightarrow> string \<Rightarrow> bool" where
  "isCurrentActor t playerId = (map_option player_id (currentActor t) = Some playerId)"

text \<open>\<open>this.table.pots.reduce((total, pot) => total + pot.amount, 0)\<close>\<close>

definition potTotal :: "'e poker_table \<Rightarrow> number" where
  "potTotal t = foldl (\<lambda>total q. jsPlus total (pot_amount q)) 0 (pots t)"

definition availableActionsOf :: "'e engine \<Rightarrow> 'e poker_table \<Rightarrow> player option \<Rightarrow> string list" where
  "availableActionsOf E t p = (case p of None \<Rightarrow> [] | Some q \<Rightarrow> legalActions E q t)"

definition getPlayerState :: "'e engine \<Rightarrow> 'e poker_table \<Rightarrow> string \<Rightarrow> playerState" where
  "getPlayerState E t playerId =
     (let p = findPlayer t playerId in
      \<lparr> ps_holeCards = (case p of Some q \<Rightarrow> (case holeCards q of Some cs \<Rightarrow> cs | None \<Rightarrow> [])
                                 | None \<Rightarrow> []),
        ps_availableActions = availableActionsOf E t p,
        ps_stackSize = (case p of Some q \<Rightarrow> stackSize q | None \<Rightarrow> 0),
        ps_bet = (case p of Some q \<Rightarrow> bet q | None \<Rightarrow> 0),
        ps_isCurrentActor = isCurrentActor t playerId,
        ps_communityCards = communityCards t,
        ps_pot = potTotal t,
        ps_currentBet = currentBet t,
        ps_currentRound = currentRound t \<rparr>)"

definition publicPlayerOf :: "registry \<Rightarrow> 'e poker_table \<Rightarrow> player \<Rightarrow> publicPlayer" where
  "publicPlayerOf reg t p =
     \<lparr> pp_id = player_id p,
       pp_name = map_option cp_name (map_of reg (player_id p)),
       pp_stackSize = stackSize p,
       pp_bet = bet p,
       pp_folded = folded p,
       pp_isCurrentActor = isCurrentActor t (player_id p) \<rparr>"

definition getPublicPlayerStates :: "registry \<Rightarrow> 'e poker_table \<Rightarrow> publicPlayer option list" where
  "getPublicPlayerStates reg t = map (map_option (publicPlayerOf reg t)) (players t)"

subsection \<open>Sending\<close>

definition broadcast :: "message \<Rightarrow> out list" where
  "broadcast m = [ToAll m]"

definition sendToPlayer :: "registry \<Rightarrow> string \<Rightarrow> message \<Rightarrow> out list" where
  "sendToPlayer reg playerId m =
     (case map_of reg playerId of
        Some cp \<Rightarrow> [ToSocket (cp_socket cp) m]
      | None \<Rightarrow> [])"

definition sendError :: "socket \<Rightarrow> text_msg \<Rightarrow> out list" where
  "sendError sock err = [ToSocket sock (ErrorMsg err)]"

definition publicGameState :: "registry \<Rightarrow> 'e poker_table \<Rightarrow> publicState" where
  "publicGameState reg t =
     \<lparr> pub_communityCards = communityCards t,
       pub_pot = potTotal t,
       pub_currentBet = currentBet t,
       pub_currentActor = map_option player_id (currentActor t),
       pub_currentRound = currentRound t,
       pub_players = getPublicPlayerStates reg t \<rparr>"

definition privateStateOf :: "'e engine \<Rightarrow> 'e poker_table \<Rightarrow> string \<Rightarrow> privateState" where
  "privateStateOf E t playerId =
     (let currentPlayer = findPlayer t playerId;
          isActor = isCurrentActor t playerId in
      \<lparr> priv_holeCards = (case currentPlayer of Some q \<Rightarrow> holeCards q | None \<Rightarrow> None),
        priv_availableActions =
          (if isActor then availableActionsOf E t (currentActor t) else []),
        priv_minRaise = (case lastRaise t of Some r \<Rightarrow> r | None \<Rightarrow> bigBlind t),
        priv_maxBet = (case currentPlayer of Some q \<Rightarrow> stackSize q | None \<Rightarrow> 0) \<rparr>)"

definition privateMessages :: "'e engine \<Rightarrow> registry \<Rightarrow> 'e poker_table \<Rightarrow> out list" where
  "privateMessages E reg t =
     concat (map (\<lambda>(playerId, cp).
                    sendToPlayer reg playerId (PrivateStateMsg (privateStateOf E t playerId)))
                 reg)"

definition broadcastGameState :: "'e engine \<Rightarrow> 'e service \<Rightarrow> out list" where
  "broadcastGameState E s =
     broadcast (PublicStateMsg (publicGameState (connectedPlayers s) (table s)))
     @ privateMessages E (connectedPlayers s) (table s)"

subsection \<open>handlePlayerJoin, handlePlayerLeave\<close>

definition FIXED_BUY_IN :: number where
  "FIXED_BUY_IN = 1000"

text \<open>
  The parameter \<open>buyIn\<close> is received and not used. When \<open>sitDown\<close> throws, nothing
  after it in the try block runs and the message of the error goes to the socket.
\<close>

definition handlePlayerJoin ::
  "'e engine \<Rightarrow> 'e service \<Rightarrow> socket \<Rightarrow> string \<Rightarrow> string \<Rightarrow> number option \<Rightarrow> 'e run" where
  "handlePlayerJoin E s sock playerId name buyIn =
     (case sitDown E playerId FIXED_BUY_IN (table s) of
        Throws err t1 \<Rightarrow> Run False (s\<lparr>table := t1\<rparr>) (sendError sock err)
      | Returns t1 \<Rightarrow>
          (let reg = AList.update playerId
                       \<lparr> cp_id = playerId, cp_name = name, cp_socket = sock \<rparr>
                       (connectedPlayers s)
           in Run False \<lparr> table = t1, connectedPlayers = reg \<rparr>
                (sendToPlayer reg playerId (JoinStateMsg (getPlayerState E t1 playerId))
                 @ broadcast (PlayersMsg (getPublicPlayerStates reg t1)))))"

text \<open>Nothing catches an exception of \<open>standUp\<close>: it escapes the handler.\<close>

definition handlePlayerLeave :: "'e engine \<Rightarrow> 'e service \<Rightarrow> string \<Rightarrow> 'e run" where
  "handlePlayerLeave E s playerId =
     (case findPlayer (table s) playerId of
        None \<Rightarrow> Run False s []
      | Some p \<Rightarrow>
          (case standUp E p (table s) of
             Throws err t1 \<Rightarrow> Run True (s\<lparr>table := t1\<rparr>) []
           | Returns t1 \<Rightarrow>
               (let reg = AList.delete playerId (connectedPlayers s)
                in Run False \<lparr> table = t1, connectedPlayers = reg \<rparr>
                     (broadcast (PlayersMsg (getPublicPlayerStates reg t1))))))"

subsection \<open>handleHandComplete\<close>

text \<open>\<open>pot.winners?.includes(w)\<close> and \<open>pot.winners?.length || 1\<close>\<close>

definition potIncludes :: "pot \<Rightarrow> player \<Rightarrow> bool" where
  "potIncludes q w = (case pot_winners q of Some ws \<Rightarrow> w \<in> set ws | None \<Rightarrow> False)"

definition potWinnerCount :: "pot \<Rightarrow> nat" where
  "potWinnerCount q =
     (case pot_winners q of
        Some ws \<Rightarrow> (if length ws = 0 then 1 else length ws)
      | None \<Rightarrow> 1)"

definition winnerAmount :: "pot list \<Rightarrow> player \<Rightarrow> number" where
  "winnerAmount ps w =
     foldl (\<lambda>total q. if potIncludes q w
                       then jsPlus total (jsDivide (pot_amount q) (of_nat (potWinnerCount q)))
                       else total)
           0 ps"

definition handleHandComplete :: "'e poker_table \<Rightarrow> out list" where
  "handleHandComplete t =
     broadcast (HandCompleteMsg
       (map_option (map (\<lambda>w. (player_id w, winnerAmount (pots t) w))) (winners t)))"

subsection \<open>handlePlayerAction\<close>

text \<open>\<open>const isAllIn = amount === player.stackSize\<close>\<close>

definition isAllIn :: "number option \<Rightarrow> player \<Rightarrow> bool" where
  "isAllIn amount p = (amount = Some (stackSize p))"

text \<open>The checks of the \<open>bet\<close> case before the engine is called: the error thrown,
  or the amount handed to the engine.\<close>

definition betCheck :: "'e poker_table \<Rightarrow> player \<Rightarrow> number option \<Rightarrow> text_msg + number" where
  "betCheck t p amount =
     (case amount of
        None \<Rightarrow> Inl [Lit ''Amount required for bet'']
      | Some a \<Rightarrow>
          (if \<not> isAllIn amount p \<and> a < bigBlind t
           then Inl [Lit ''Bet must be at least the big blind'']
           else Inr a))"

definition isRaisingToBigBlind :: "'e poker_table \<Rightarrow> player \<Rightarrow> number \<Rightarrow> bool" where
  "isRaisingToBigBlind t p a =
     (let isPreFlop = (communityCards t = []);
          isSmallBlindPosition = (bet p = smallBlind t)
      in isPreFlop \<and> isSmallBlindPosition \<and> a = bigBlind t)"

text \<open>\<open>amount - (this.table.currentBet || 0)\<close>\<close>

definition raiseAmount :: "'e poker_table \<Rightarrow> number \<Rightarrow> number" where
  "raiseAmount t a = jsMinus a (case currentBet t of Some b \<Rightarrow> b | None \<Rightarrow> 0)"

text \<open>The checks of the \<open>raise\<close> case before the engine is called: the error thrown,
  or the amount handed to the engine.\<close>

definition raiseCheck :: "'e poker_table \<Rightarrow> player \<Rightarrow> number option \<Rightarrow> text_msg + number" where
  "raiseCheck t p amount =
     (case amount of
        None \<Rightarrow> Inl [Lit ''Amount required for raise'']
      | Some a \<Rightarrow>
          (if \<not> isAllIn amount p \<and> \<not> isRaisingToBigBlind t p a \<and> raiseAmount t a < bigBlind t
           then Inl [Lit ''Raise must increase the current bet by at least the big blind ('',
                     Num (bigBlind t), Lit '')'']
           else Inr a))"

subsection \<open>The engine operations whose rule is taken from the specification\<close>

definition seated :: "'e poker_table \<Rightarrow> player list" where
  "seated t = concat (map (\<lambda>x. case x of None \<Rightarrow> [] | Some p \<Rightarrow> [p]) (players t))"

definition seatedWithChips :: "'e poker_table \<Rightarrow> nat" where
  "seatedWithChips t = length (filter (\<lambda>p. 0 < stackSize p) (seated t))"

text \<open>
  Modelled from the spec: \<open>Table.dealCards\<close> of the engine package is missing from the
  sources. Section 4.4: the start of a hand "fails with InsufficientPlayers if
  seated-with-chips count < 2"; section 7: a start attempted with fewer than 2 seated
  makes "no state change". What the engine does otherwise is \<open>dealCards E\<close>.
\<close>

definition Table_dealCards :: "'e engine \<Rightarrow> 'e poker_table \<Rightarrow> 'e outcome" where
  "Table_dealCards E t =
     (if seatedWithChips t < 2 then Throws [Lit ''InsufficientPlayers''] t
      else dealCards E t)"

text \<open>
  Modelled from the spec: the action methods of \<open>Player\<close> are missing from the sources.
  Section 4.3 gives the "legal actions for the acting player"; the acting player is known
  by its id (section 3: actingPlayerId). Section 4.5: every action "is validated against
  BettingRound legality (4.3) before mutating Table state", and an action "violating its
  legality constraint fails with IllegalAction". So an action that is not legal for the
  player, or comes from a player who is not the one to move, throws with the table as it
  was, and a legal one returns the table that the engine's part makes of it.
\<close>

definition validated ::
  "bool \<Rightarrow> player \<Rightarrow> 'e poker_table \<Rightarrow> 'e poker_table \<Rightarrow> 'e outcome" where
  "validated legal p t t' =
     (if isCurrentActor t (player_id p) \<and> legal then Returns t'
      else Throws [Lit ''IllegalAction''] t)"

text \<open>The table's current bet, 0 when there is none.\<close>

definition tableBet :: "'e poker_table \<Rightarrow> number" where
  "tableBet t = (case currentBet t of Some b \<Rightarrow> b | None \<Rightarrow> 0)"

text \<open>
  Modelled from the spec: \<open>Player.callAction\<close>. Section 4.3: "call: legal iff current bet
  > player's bet".
\<close>

definition Player_callAction :: "'e engine \<Rightarrow> player \<Rightarrow> 'e poker_table \<Rightarrow> 'e outcome" where
  "Player_callAction E p t = validated (bet p < tableBet t) p t (callAction E p t)"

text \<open>
  Modelled from the spec: \<open>Player.checkAction\<close>. Section 4.3: "check: legal iff player's
  current-street bet already equals the table's current bet".
\<close>

definition Player_checkAction :: "'e engine \<Rightarrow> player \<Rightarrow> 'e poker_table \<Rightarrow> 'e outcome" where
  "Player_checkAction E p t = validated (bet p = tableBet t) p t (checkAction E p t)"

text \<open>
  Modelled from the spec: \<open>Player.foldAction\<close>. Section 4.3: "fold: always legal unless
  already all-in/folded"; by section 8 "the acting player is always an unfolded,
  non-all-in seated player", and section 4.5 concludes that "folding is always legal for
  the player to move". So the fold of the player to move is legal.
\<close>

definition Player_foldAction :: "'e engine \<Rightarrow> player \<Rightarrow> 'e poker_table \<Rightarrow> 'e outcome" where
  "Player_foldAction E p t = validated True p t (foldAction E p t)"

text \<open>
  Modelled from the spec: \<open>Player.betAction\<close>. Section 4.3: "bet: legal iff current bet ==
  0 for the street; amount must be \<ge> bigBlind unless the player is going all-in with
  their entire remaining stack, in which case any positive amount is accepted".
\<close>

definition betLegal :: "'e poker_table \<Rightarrow> player \<Rightarrow> number \<Rightarrow> bool" where
  "betLegal t p a =
     (tableBet t = 0 \<and> (bigBlind t \<le> a \<or> (isAllIn (Some a) p \<and> 0 < a)))"

definition Player_betAction ::
  "'e engine \<Rightarrow> player \<Rightarrow> number \<Rightarrow> 'e poker_table \<Rightarrow> 'e outcome" where
  "Player_betAction E p a t = validated (betLegal t p a) p t (betAction E p a t)"

text \<open>
  Modelled from the spec: \<open>Player.raiseAction\<close>. Section 4.3: "raise: legal iff current
  bet > 0; the increase over current bet must be \<ge> the size of the last raise on this
  street (defaults to bigBlind if no raise yet) unless (a) the player is going all-in, or
  (b) this is the special preflop case where the small-blind player is only completing
  to the big blind amount". The terms are read on the fields the service reads: the
  increase is the amount less the current bet (\<open>raiseAmount\<close>), going all-in is an
  amount equal to the whole stack (\<open>isAllIn\<close>), and the completion of the small blind is
  \<open>isRaisingToBigBlind\<close>.
\<close>

definition minRaiseOf :: "'e poker_table \<Rightarrow> number" where
  "minRaiseOf t = (case lastRaise t of Some r \<Rightarrow> r | None \<Rightarrow> bigBlind t)"

definition raiseLegal :: "'e poker_table \<Rightarrow> player \<Rightarrow> number \<Rightarrow> bool" where
  "raiseLegal t p a =
     (0 < tableBet t
      \<and> (minRaiseOf t \<le> raiseAmount t a \<or> isAllIn (Some a) p \<or> isRaisingToBigBlind t p a))"

definition Player_raiseAction ::
  "'e engine \<Rightarrow> player \<Rightarrow> number \<Rightarrow> 'e poker_table \<Rightarrow> 'e outcome" where
  "Player_raiseAction E p a t = validated (raiseLegal t p a) p t (raiseAction E p a t)"

subsection \<open>handlePlayerAction, continued\<close>

text \<open>
  The try block up to and including the call into the engine: the table it leaves, and
  the error if one was thrown.
\<close>

definition tryAction ::
  "'e engine \<Rightarrow> 'e poker_table \<Rightarrow> string \<Rightarrow> string \<Rightarrow> number option \<Rightarrow> 'e outcome" where
  "tryAction E t playerId action amount =
     (case findPlayer t playerId of
        None \<Rightarrow> Throws [Lit ''Player not found''] t
      | Some p \<Rightarrow>
          if \<not> isCurrentActor t playerId then Throws [Lit ''Not your turn''] t
          else if action = ''call'' then Player_callAction E p t
          else if action = ''check'' then Player_checkAction E p t
          else if action = ''fold'' then Player_foldAction E p t
          else if action = ''bet'' then
            (case betCheck t p amount of
               Inl err \<Rightarrow> Throws err t
             | Inr a \<Rightarrow> Player_betAction E p a t)
          else if action = ''raise'' then
            (case raiseCheck t p amount of
               Inl err \<Rightarrow> Throws err t
             | Inr a \<Rightarrow> Player_raiseAction E p a t)
          else Throws [Lit ''Invalid action''] t)"

text \<open>What follows a successful action or fold: the broadcast, and the hand-over check.\<close>

definition afterAction :: "'e engine \<Rightarrow> 'e service \<Rightarrow> out list" where
  "afterAction E s =
     broadcastGameState E s
     @ (if currentRound (table s) = None then handleHandComplete (table s) else [])"

text \<open>\<open>this.connectedPlayers.get(playerId)?.name || "Player"\<close>\<close>

definition displayName :: "registry \<Rightarrow> string \<Rightarrow> string" where
  "displayName reg playerId =
     (case map_of reg playerId of
        Some cp \<Rightarrow> (if cp_name cp = [] then ''Player'' else cp_name cp)
      | None \<Rightarrow> ''Player'')"

text \<open>The inner try block of the catch clause: the automatic fold.\<close>

definition autoFold :: "'e engine \<Rightarrow> 'e service \<Rightarrow> string \<Rightarrow> text_msg \<Rightarrow> 'e run" where
  "autoFold E s playerId err =
     (case findPlayer (table s) playerId of
        None \<Rightarrow> Run False s []
      | Some p \<Rightarrow>
          if isCurrentActor (table s) playerId then
            (case Player_foldAction E p (table s) of
               Throws foldError t2 \<Rightarrow>
                 Run False (s\<lparr>table := t2\<rparr>)
                   [ConsoleError (Lit ''Error during auto-fold:'' # foldError)]
             | Returns t2 \<Rightarrow>
                 Run False (s\<lparr>table := t2\<rparr>)
                   (broadcast (NotificationMsg
                      ([Lit (displayName (connectedPlayers s) playerId),
                        Lit '' auto-folded due to invalid action: ''] @ err))
                    @ afterAction E (s\<lparr>table := t2\<rparr>)))
          else Run False s [])"

text \<open>
  The catch clause first sends the error on the socket registered for \<open>playerId\<close>. When
  the registry has no entry the socket is \<open>undefined\<close>, \<open>socket.send\<close> raises a
  TypeError inside the catch clause, and the automatic fold is never reached.
\<close>

definition handlePlayerAction ::
  "'e engine \<Rightarrow> 'e service \<Rightarrow> string \<Rightarrow> string \<Rightarrow> number option \<Rightarrow> 'e run" where
  "handlePlayerAction E s playerId action amount =
     (case tryAction E (table s) playerId action amount of
        Returns t1 \<Rightarrow> Run False (s\<lparr>table := t1\<rparr>) (afterAction E (s\<lparr>table := t1\<rparr>))
      | Throws err t1 \<Rightarrow>
          (case map_of (connectedPlayers s) playerId of
             None \<Rightarrow> Run True (s\<lparr>table := t1\<rparr>) []
           | Some cp \<Rightarrow>
               (let r = autoFold E (s\<lparr>table := t1\<rparr>) playerId err
                in Run (crashed r) (state r) (sendError (cp_socket cp) err @ sent r))))"

subsection \<open>startNewHand, restartGame\<close>

definition startNewHand :: "'e engine \<Rightarrow> 'e service \<Rightarrow> 'e run" where
  "startNewHand E s =
     (case Table_dealCards E (table s) of
        Returns t1 \<Rightarrow> Run False (s\<lparr>table := t1\<rparr>) (broadcastGameState E (s\<lparr>table := t1\<rparr>))
      | Throws err t1 \<Rightarrow>
          Run False (s\<lparr>table := t1\<rparr>)
            (ConsoleError (Lit ''Error starting new hand:'' # err)
             # broadcast (ErrorMsg
                 [Lit ''Failed to start new hand. Make sure there are enough players.''])))"

text \<open>The constructor of the service, and the state \<open>restartGame\<close> rebuilds.\<close>

definition initialService :: "'e engine \<Rightarrow> 'e service" where
  "initialService E = \<lparr> table = newTable E 1000 5 10, connectedPlayers = [] \<rparr>"

definition restartGame :: "'e engine \<Rightarrow> 'e service \<Rightarrow> 'e run" where
  "restartGame E s =
     (let s1 = \<lparr> table = newTable E 1000 5 10, connectedPlayers = [] \<rparr>
      in Run False s1
           (broadcast (GameResetMsg ''Game has been reset. All players must rejoin.'')
            @ broadcastGameState E s1))"

subsection \<open>handleMessage, handleConnection\<close>

definition handleMessage :: "'e engine \<Rightarrow> 'e service \<Rightarrow> socket \<Rightarrow> clientMessage \<Rightarrow> 'e run" where
  "handleMessage E s sock m =
     (case m of
        Join playerId name buyIn \<Rightarrow> handlePlayerJoin E s sock playerId name buyIn
      | Action playerId action amount \<Rightarrow> handlePlayerAction E s playerId action amount
      | StartGame \<Rightarrow> startNewHand E s
      | Restart \<Rightarrow> restartGame E s
      | OtherType \<Rightarrow> Run False s (sendError sock [Lit ''Unknown message type'']))"

text \<open>
  The \<open>message\<close> listener: \<open>None\<close> is a text that JSON.parse rejects. An exception that
  escapes \<open>handleMessage\<close> is caught here and answered on the sending socket.
\<close>

definition onMessage :: "'e engine \<Rightarrow> 'e service \<Rightarrow> socket \<Rightarrow> clientMessage option \<Rightarrow> 'e run" where
  "onMessage E s sock raw =
     (case raw of
        None \<Rightarrow> Run False s (sendError sock [Lit ''Invalid message format''])
      | Some m \<Rightarrow>
          (let r = handleMessage E s sock m
           in if crashed r
              then Run False (state r) (sent r @ sendError sock [Lit ''Invalid message format''])
              else r))"

text \<open>The \<open>close\<close> listener: the first registry entry with this socket leaves.\<close>

definition onClose :: "'e engine \<Rightarrow> 'e service \<Rightarrow> socket \<Rightarrow> 'e run" where
  "onClose E s sock =
     (case List.find (\<lambda>(playerId, cp). cp_socket cp = sock) (connectedPlayers s) of
        Some (playerId, cp) \<Rightarrow> handlePlayerLeave E s playerId
      | None \<Rightarrow> Run False s [])"

subsection \<open>Tables that differ only in hole cards\<close>

text \<open>
  Every Player object reachable from the table (the seats, the current actor, the winners
  of the table and of each pot) with its hole cards removed. Two tables differ at most in
  hole cards when this makes them equal.
\<close>

definition withoutHoleCards :: "player \<Rightarrow> player" where
  "withoutHoleCards p = p\<lparr>holeCards := None\<rparr>"

definition hideHoleCards :: "'e poker_table \<Rightarrow> 'e poker_table" where
  "hideHoleCards t =
     t\<lparr> players := map (map_option withoutHoleCards) (players t),
        currentActor := map_option withoutHoleCards (currentActor t),
        pots := map (\<lambda>q. q\<lparr>pot_winners := map_option (map withoutHoleCards) (pot_winners q)\<rparr>)
                    (pots t),
        winners := map_option (map withoutHoleCards) (winners t) \<rparr>"

section \<open>A small engine to run the service on\<close>

text \<open>
  Modelled from the spec: the engine package (Table, Player and their methods) is missing
  from the sources. \<open>demoEngine\<close> is a small stand-in after sections 4.3 and 4.4 of the
  specification, with no deck and no street changes: nine seats, filled from the left;
  a hand starts with the first player who has chips to act; an action moves the chips
  and passes the turn; a fold that leaves one player ends the hand. It only
  serves to run the service at concrete inputs; no theorem below depends on it except
  the examples that name it. Its \<open>internals\<close> is the next free object reference.
\<close>

definition demo_newTable :: "number \<Rightarrow> number \<Rightarrow> number \<Rightarrow> nat poker_table" where
  "demo_newTable buyIn sb bb =
     \<lparr> players = [None, None, None, None, None, None, None, None, None],
       currentActor = None, communityCards = [], smallBlind = sb, bigBlind = bb,
       currentBet = None, lastRaise = None, currentRound = None, pots = [],
       winners = None, internals = 0 \<rparr>"

fun seatAt :: "player \<Rightarrow> player option list \<Rightarrow> player option list option" where
  "seatAt p [] = None"
| "seatAt p (None # xs) = Some (Some p # xs)"
| "seatAt p (Some q # xs) = map_option ((#) (Some q)) (seatAt p xs)"

definition demo_sitDown :: "string \<Rightarrow> number \<Rightarrow> nat poker_table \<Rightarrow> nat outcome" where
  "demo_sitDown playerId buyIn t =
     (if findPlayer t playerId \<noteq> None then Throws [Lit ''Player already joined this table.''] t
      else case seatAt \<lparr> ref = internals t, player_id = playerId, stackSize = buyIn, bet = 0,
                         folded = False, holeCards = None \<rparr> (players t) of
             None \<Rightarrow> Throws [Lit ''The table is currently full.''] t
           | Some ps \<Rightarrow> Returns (t\<lparr>players := ps, internals := Suc (internals t)\<rparr>))"

definition demo_standUp :: "player \<Rightarrow> nat poker_table \<Rightarrow> nat outcome" where
  "demo_standUp p t =
     Returns (t\<lparr>players := map (\<lambda>x. if x = Some p then None else x) (players t)\<rparr>)"

definition demo_dealCards :: "nat poker_table \<Rightarrow> nat outcome" where
  "demo_dealCards t =
     (if currentRound t \<noteq> None then Throws [Lit ''There is already an active hand!''] t
      else case filter (\<lambda>p. 0 < stackSize p) (seated t) of
             p # q # rest \<Rightarrow> Returns (t\<lparr>currentActor := Some p, currentRound := Some PreFlop\<rparr>)
           | _ \<Rightarrow> Throws [Lit ''InsufficientPlayers''] t)"

text \<open>The player \<open>p\<close> has acted and is now \<open>p'\<close>: the turn passes, or the hand ends.\<close>

definition demo_next :: "player \<Rightarrow> player \<Rightarrow> nat poker_table \<Rightarrow> nat poker_table" where
  "demo_next p p' t =
     (let ps = map (\<lambda>x. if x = Some p then Some p' else x) (players t);
          live = filter (\<lambda>q. \<not> folded q) (seated (t\<lparr>players := ps\<rparr>))
      in case filter (\<lambda>q. ref q \<noteq> ref p) live of
           q # rest \<Rightarrow>
             (if length live \<le> 1
              then t\<lparr>players := ps, currentActor := None, currentRound := None,
                     winners := Some live\<rparr>
              else t\<lparr>players := ps, currentActor := Some q\<rparr>)
         | [] \<Rightarrow> t\<lparr>players := ps, currentActor := None, currentRound := None,
                    winners := Some live\<rparr>)"

definition demo_put :: "player \<Rightarrow> number \<Rightarrow> player" where
  "demo_put p a = p\<lparr>stackSize := jsMinus (stackSize p) (jsMinus a (bet p)), bet := a\<rparr>"

definition demo_current :: "nat poker_table \<Rightarrow> number" where
  "demo_current t = (case currentBet t of Some b \<Rightarrow> b | None \<Rightarrow> 0)"

definition demo_legalActions :: "player \<Rightarrow> nat poker_table \<Rightarrow> string list" where
  "demo_legalActions p t =
     (if demo_current t = 0 then [''check'', ''bet'', ''fold'']
      else if bet p = demo_current t then [''check'', ''raise'', ''fold'']
      else [''call'', ''raise'', ''fold''])"

definition demo_foldAction :: "player \<Rightarrow> nat poker_table \<Rightarrow> nat poker_table" where
  "demo_foldAction p t = demo_next p (p\<lparr>folded := True\<rparr>) t"

definition demo_checkAction :: "player \<Rightarrow> nat poker_table \<Rightarrow> nat poker_table" where
  "demo_checkAction p t = demo_next p p t"

definition demo_callAction :: "player \<Rightarrow> nat poker_table \<Rightarrow> nat poker_table" where
  "demo_callAction p t =
     demo_next p (demo_put p (min (demo_current t) (jsPlus (bet p) (stackSize p)))) t"

definition demo_betAction :: "player \<Rightarrow> number \<Rightarrow> nat poker_table \<Rightarrow> nat poker_table" where
  "demo_betAction p a t =
     demo_next p (demo_put p a) (t\<lparr>currentBet := Some a, lastRaise := Some a\<rparr>)"

definition demo_raiseAction :: "player \<Rightarrow> number \<Rightarrow> nat poker_table \<Rightarrow> nat poker_table" where
  "demo_raiseAction p a t =
     demo_next p (demo_put p a)
       (t\<lparr>currentBet := Some a, lastRaise := Some (jsMinus a (demo_current t))\<rparr>)"

definition demoEngine :: "nat engine" where
  "demoEngine =
     \<lparr> newTable = demo_newTable, sitDown = demo_sitDown, standUp = demo_standUp,
       dealCards = demo_dealCards, callAction = demo_callAction,
       checkAction = demo_checkAction, foldAction = demo_foldAction,
       betAction = demo_betAction, raiseAction = demo_raiseAction,
       legalActions = demo_legalActions \<rparr>"

section \<open>Example states\<close>

text \<open>
  Two players, blinds 5 and 10 posted, hole cards dealt, the small blind to act: the
  state of the first scenario of the specification.
\<close>

definition alice :: player where
  "alice = \<lparr> ref = 0, player_id = ''alice'', stackSize = 995, bet = 5, folded = False,
             holeCards = Some [Card ''A'' ''s'', Card ''K'' ''s''] \<rparr>"

definition bob :: player where
  "bob = \<lparr> ref = 1, player_id = ''bob'', stackSize = 990, bet = 10, folded = False,
           holeCards = Some [Card ''7'' ''d'', Card ''2'' ''c''] \<rparr>"

definition preflopTable :: "nat poker_table" where
  "preflopTable =
     \<lparr> players = [Some alice, Some bob, None, None, None, None, None, None, None],
       currentActor = Some alice, communityCards = [], smallBlind = 5, bigBlind = 10,
       currentBet = Some 10, lastRaise = None, currentRound = Some PreFlop,
       pots = [\<lparr> pot_amount = 15, pot_winners = None \<rparr>], winners = None,
       internals = 2 \<rparr>"

definition twoPlayers :: registry where
  "twoPlayers =
     [(''alice'', \<lparr> cp_id = ''alice'', cp_name = ''Alice'', cp_socket = 1 \<rparr>),
      (''bob'', \<lparr> cp_id = ''bob'', cp_name = ''Bob'', cp_socket = 2 \<rparr>)]"

definition preflopService :: "nat service" where
  "preflopService = \<lparr> table = preflopTable, connectedPlayers = twoPlayers \<rparr>"

text \<open>The same moment of the same hand with other hole cards dealt.\<close>

definition otherDeal :: "nat poker_table" where
  "otherDeal =
     preflopTable
       \<lparr> players := [Some (alice\<lparr>holeCards := Some [Card ''2'' ''h'', Card ''3'' ''h'']\<rparr>),
                     Some (bob\<lparr>holeCards := Some [Card ''A'' ''s'', Card ''A'' ''h'']\<rparr>),
                     None, None, None, None, None, None, None],
         currentActor := Some (alice\<lparr>holeCards := Some [Card ''2'' ''h'', Card ''3'' ''h'']\<rparr>) \<rparr>"

text \<open>
  Later in that hand: alice has raised to 50 (a raise of 40 over the big blind) and bob is
  to act.
\<close>

definition raisedTable :: "nat poker_table" where
  "raisedTable =
     preflopTable
       \<lparr> players := [Some (alice\<lparr>stackSize := 950, bet := 50\<rparr>), Some bob,
                     None, None, None, None, None, None, None],
         currentActor := Some bob, currentBet := Some 50, lastRaise := Some 40 \<rparr>"

definition raisedService :: "nat service" where
  "raisedService = \<lparr> table = raisedTable, connectedPlayers = twoPlayers \<rparr>"



text \<open>A table with alice alone, who has chips.\<close>

definition loneTable :: "nat poker_table" where
  "loneTable =
     preflopTable
       \<lparr> players := [Some (alice\<lparr>stackSize := 1000, bet := 0, holeCards := None\<rparr>),
                     None, None, None, None, None, None, None, None],
         currentActor := None, currentBet := None, currentRound := None, pots := [] \<rparr>"

definition loneService :: "nat service" where
  "loneService =
     \<lparr> table = loneTable,
       connectedPlayers =
         [(''alice'', \<lparr> cp_id = ''alice'', cp_name = ''Alice'', cp_socket = 1 \<rparr>)] \<rparr>"

text \<open>A showdown with one pot of 25 that alice and bob both win.\<close>

definition splitPotTable :: "nat poker_table" where
  "splitPotTable =
     preflopTable
       \<lparr> currentActor := None, currentRound := None,
         pots := [\<lparr> pot_amount = 25, pot_winners = Some [alice, bob] \<rparr>],
         winners := Some [alice, bob] \<rparr>"

text \<open>A showdown with pots of 100 and 10 that alice, bob and carol all win.\<close>

definition carol :: player where
  "carol = \<lparr> ref = 2, player_id = ''carol'', stackSize = 990, bet = 10, folded = False,
             holeCards = Some [Card ''7'' ''h'', Card ''2'' ''s''] \<rparr>"

definition threeWayTable :: "nat poker_table" where
  "threeWayTable =
     preflopTable
       \<lparr> players := [Some alice, Some bob, Some carol, None, None, None, None, None, None],
         currentActor := None, currentRound := None,
         pots := [\<lparr> pot_amount = 100, pot_winners = Some [alice, bob, carol] \<rparr>,
                  \<lparr> pot_amount = 10, pot_winners = Some [alice, bob, carol] \<rparr>],
         winners := Some [alice, bob, carol] \<rparr>"

section \<open>Facts about the handlers\<close>

subsection \<open>The rounding at work\<close>

lemma rounding_examples:
  "roundDouble (1 / 10) = 3602879701896397 / 36028797018963968"
  "jsDivide 35 3 = 6567749456581973 / 562949953421312"
  "jsDivide 25 2 = 25 / 2"
  "jsPlus 100 10 = 110"
  "jsMinus 60 50 = 10"
  by code_simp+


lemmas demo_defs = demoEngine_def demo_foldAction_def demo_legalActions_def
  demo_current_def demo_raiseAction_def demo_sitDown_def demo_dealCards_def demo_newTable_def
  seated_def seatedWithChips_def

lemmas example_defs = preflopService_def preflopTable_def twoPlayers_def alice_def bob_def

lemma findPlayer_id: "findPlayer t playerId = Some p \<Longrightarrow> player_id p = playerId"
  by (auto simp: findPlayer_def find_Some_iff split: option.splits)

lemma tryAction_not_found:
  "findPlayer t playerId = None \<Longrightarrow>
   tryAction E t playerId action amount = Throws [Lit ''Player not found''] t"
  by (simp add: tryAction_def)

lemma tryAction_not_turn:
  "findPlayer t playerId = Some p \<Longrightarrow> \<not> isCurrentActor t playerId \<Longrightarrow>
   tryAction E t playerId action amount = Throws [Lit ''Not your turn''] t"
  by (simp add: tryAction_def)

lemma autoFold_not_actor:
  "findPlayer (table s) playerId = None \<or> \<not> isCurrentActor (table s) playerId \<Longrightarrow>
   autoFold E s playerId err = Run False s []"
  by (auto simp: autoFold_def split: option.splits)

subsection \<open>The rejections the service itself raises for the player to act\<close>

lemma unknown_action_rejected:
  assumes "findPlayer t playerId = Some p" and "isCurrentActor t playerId"
      and "action \<notin> {''call'', ''check'', ''fold'', ''bet'', ''raise''}"
  shows "tryAction E t playerId action amount = Throws [Lit ''Invalid action''] t"
  using assms by (simp add: tryAction_def)

lemma missing_amount_rejected:
  assumes "findPlayer t playerId = Some p" and "isCurrentActor t playerId"
  shows "tryAction E t playerId ''bet'' None = Throws [Lit ''Amount required for bet''] t"
    and "tryAction E t playerId ''raise'' None = Throws [Lit ''Amount required for raise''] t"
  using assms by (simp_all add: tryAction_def betCheck_def raiseCheck_def)

lemma undersized_bet_rejected:
  assumes "findPlayer t playerId = Some p" and "isCurrentActor t playerId"
      and "a \<noteq> stackSize p" and "a < bigBlind t"
  shows "tryAction E t playerId ''bet'' (Some a) =
           Throws [Lit ''Bet must be at least the big blind''] t"
  using assms by (simp add: tryAction_def betCheck_def isAllIn_def)

lemma undersized_raise_rejected:
  assumes "findPlayer t playerId = Some p" and "isCurrentActor t playerId"
      and "a \<noteq> stackSize p" and "\<not> isRaisingToBigBlind t p a"
      and "raiseAmount t a < bigBlind t"
  shows "tryAction E t playerId ''raise'' (Some a) =
           Throws [Lit ''Raise must increase the current bet by at least the big blind ('',
                   Num (bigBlind t), Lit '')''] t"
  using assms by (simp add: tryAction_def raiseCheck_def isAllIn_def)


subsection \<open>Illegal action by the player to act\<close>


lemma Player_foldAction_actor:
  "isCurrentActor t (player_id p) \<Longrightarrow> Player_foldAction E p t = Returns (foldAction E p t)"
  by (simp add: Player_foldAction_def validated_def)






subsection \<open>Action out of turn\<close>

text \<open>
  Claim C2. An action message whose \<open>playerId\<close> is not seated, or is seated but is not
  the current actor, leaves the whole state of the service as it was: the table (so the
  current actor, every fold flag, every bet) and the registry. All it produces is one
  error message: on the socket registered for \<open>playerId\<close>, or, when the registry does not
  know \<open>playerId\<close>, on the sending socket.
\<close>

theorem out_of_turn_action_changes_nothing:
  assumes "findPlayer (table s) playerId = None \<or> \<not> isCurrentActor (table s) playerId"
  shows "state (onMessage E s sock (Some (Action playerId action amount))) = s
       \<and> sent (onMessage E s sock (Some (Action playerId action amount))) =
           (let err = (if findPlayer (table s) playerId = None
                       then [Lit ''Player not found''] else [Lit ''Not your turn''])
            in case map_of (connectedPlayers s) playerId of
                 Some cp \<Rightarrow> [ToSocket (cp_socket cp) (ErrorMsg err)]
               | None \<Rightarrow> [ToSocket sock (ErrorMsg [Lit ''Invalid message format''])])"
proof (cases "findPlayer (table s) playerId")
  case None
  then show ?thesis
    using autoFold_not_actor [of s playerId E "[Lit ''Player not found'']"]
    by (simp add: onMessage_def handleMessage_def handlePlayerAction_def tryAction_not_found
        sendError_def split: option.splits)
next
  case (Some p)
  with assms have na: "\<not> isCurrentActor (table s) playerId" by simp
  show ?thesis
    using Some na autoFold_not_actor [of s playerId E "[Lit ''Not your turn'']"]
    by (simp add: onMessage_def handleMessage_def handlePlayerAction_def
        tryAction_not_turn [OF Some na] sendError_def split: option.splits)
qed

theorem out_of_turn_action_changes_nothing_witness:
  "(findPlayer (table preflopService) ''bob'' = None
      \<or> \<not> isCurrentActor (table preflopService) ''bob'')
   \<and> state (onMessage demoEngine preflopService 2 (Some (Action ''bob'' ''fold'' None)))
       = preflopService
   \<and> sent (onMessage demoEngine preflopService 2 (Some (Action ''bob'' ''fold'' None)))
       = [ToSocket 2 (ErrorMsg [Lit ''Not your turn''])]"
proof -
  have h: "findPlayer (table preflopService) ''bob'' = None
             \<or> \<not> isCurrentActor (table preflopService) ''bob''"
    by (simp add: example_defs isCurrentActor_def)
  have f: "findPlayer (table preflopService) ''bob'' = Some bob"
    by (simp add: example_defs findPlayer_def)
  have m: "map_of (connectedPlayers preflopService) ''bob''
             = Some \<lparr> cp_id = ''bob'', cp_name = ''Bob'', cp_socket = 2 \<rparr>"
    by (simp add: example_defs)
  show ?thesis
    using out_of_turn_action_changes_nothing
            [OF h, of demoEngine 2 "''fold''" None] h f m
    by simp
qed


subsection \<open>Join\<close>

text \<open>
  Claim C10. When seating the player fails (the engine's \<open>sitDown\<close> throws: the player
  is seated already, the table is full, ...), the only message is the error, sent on the
  joining socket: no join state for the joiner and no players broadcast. The registry is
  as it was, and the table is as the failed \<open>sitDown\<close> left it.
\<close>

theorem join_failure_is_atomic:
  assumes "sitDown E playerId FIXED_BUY_IN (table s) = Throws err t1"
  shows "sent (onMessage E s sock (Some (Join playerId name buyIn)))
           = [ToSocket sock (ErrorMsg err)]
       \<and> connectedPlayers (state (onMessage E s sock (Some (Join playerId name buyIn))))
           = connectedPlayers s
       \<and> table (state (onMessage E s sock (Some (Join playerId name buyIn)))) = t1"
  using assms
  by (simp add: onMessage_def handleMessage_def handlePlayerJoin_def sendError_def)

theorem join_failure_is_atomic_witness:
  "sitDown demoEngine ''alice'' FIXED_BUY_IN (table preflopService)
     = Throws [Lit ''Player already joined this table.''] preflopTable
   \<and> sent (onMessage demoEngine preflopService 3 (Some (Join ''alice'' ''Eve'' (Some 5000))))
       = [ToSocket 3 (ErrorMsg [Lit ''Player already joined this table.''])]
   \<and> connectedPlayers (state (onMessage demoEngine preflopService 3
                                 (Some (Join ''alice'' ''Eve'' (Some 5000))))) = twoPlayers
   \<and> table (state (onMessage demoEngine preflopService 3
                      (Some (Join ''alice'' ''Eve'' (Some 5000))))) = preflopTable"
proof -
  have h: "sitDown demoEngine ''alice'' FIXED_BUY_IN (table preflopService)
             = Throws [Lit ''Player already joined this table.''] preflopTable"
    by (simp add: demo_defs example_defs findPlayer_def)
  show ?thesis
    using join_failure_is_atomic [OF h, of 3 "''Eve''" "Some 5000"] h
    by (simp add: preflopService_def)
qed

text \<open>
  Claim C5. Two join messages that differ only in \<open>buyIn\<close> are handled alike: the same
  state (table and registry) and the same messages result. The seat is the one the
  engine's \<open>sitDown\<close> makes for the fixed buy-in of 1000, whatever the client asked for.
\<close>

theorem join_ignores_client_buy_in:
  "onMessage E s sock (Some (Join playerId name buyIn))
     = onMessage E s sock (Some (Join playerId name buyIn'))
   \<and> table (state (onMessage E s sock (Some (Join playerId name buyIn))))
       = (case sitDown E playerId 1000 (table s) of Returns t1 \<Rightarrow> t1 | Throws err t1 \<Rightarrow> t1)"
  by (simp add: onMessage_def handleMessage_def handlePlayerJoin_def FIXED_BUY_IN_def Let_def
      split: outcome.splits)

theorem join_ignores_client_buy_in_witness:
  "onMessage demoEngine (initialService demoEngine) 1 (Some (Join ''alice'' ''Alice'' (Some 50)))
     = onMessage demoEngine (initialService demoEngine) 1 (Some (Join ''alice'' ''Alice'' None))
   \<and> map_option stackSize
       (findPlayer (table (state (onMessage demoEngine (initialService demoEngine) 1
                                    (Some (Join ''alice'' ''Alice'' (Some 50)))))) ''alice'')
       = Some 1000"
proof -
  have same: "onMessage demoEngine (initialService demoEngine) 1
                (Some (Join ''alice'' ''Alice'' (Some 50)))
              = onMessage demoEngine (initialService demoEngine) 1
                  (Some (Join ''alice'' ''Alice'' None))"
    using join_ignores_client_buy_in
            [of demoEngine "initialService demoEngine" 1 "''alice''" "''Alice''" "Some 50" None]
    by (rule conjunct1)
  have stack: "map_option stackSize
       (findPlayer (table (state (onMessage demoEngine (initialService demoEngine) 1
                                    (Some (Join ''alice'' ''Alice'' (Some 50)))))) ''alice'')
       = Some 1000"
    by (simp add: onMessage_def handleMessage_def handlePlayerJoin_def demo_defs
        initialService_def findPlayer_def FIXED_BUY_IN_def Let_def)
  show ?thesis using same stack by (intro conjI)
qed


subsection \<open>Restart\<close>

text \<open>
  Claim C7. In every state, a restart message is handled without any condition and
  without failure: the table is replaced by a freshly constructed one (all hand state and
  all seats of the old table are gone), the registry is emptied, the reset notice and the
  public state of the fresh table are broadcast, and the service is in the very state its
  constructor builds, so that a join that follows is handled exactly as the first join of
  a new server.
\<close>

theorem restart_resets_everything:
  "onMessage E s sock (Some Restart) =
     Run False (initialService E)
       [ToAll (GameResetMsg ''Game has been reset. All players must rejoin.''),
        ToAll (PublicStateMsg (publicGameState [] (newTable E 1000 5 10)))]
   \<and> table (initialService E) = newTable E 1000 5 10
   \<and> connectedPlayers (initialService E) = []
   \<and> onMessage E (state (onMessage E s sock (Some Restart))) sock' (Some (Join playerId name buyIn))
       = onMessage E (initialService E) sock' (Some (Join playerId name buyIn))"
  by (simp add: onMessage_def handleMessage_def restartGame_def initialService_def
      broadcastGameState_def privateMessages_def broadcast_def)

theorem restart_resets_everything_witness:
  "state (onMessage demoEngine preflopService 2 (Some Restart)) = initialService demoEngine
   \<and> players (table (state (onMessage demoEngine preflopService 2 (Some Restart))))
       = [None, None, None, None, None, None, None, None, None]
   \<and> map_option stackSize
       (findPlayer (table (state (onMessage demoEngine
                                    (state (onMessage demoEngine preflopService 2 (Some Restart)))
                                    1 (Some (Join ''alice'' ''Alice'' None))))) ''alice'')
       = Some 1000"
  using restart_resets_everything
          [of demoEngine preflopService 2 1 "''alice''" "''Alice''" None]
  by (simp add: onMessage_def handleMessage_def handlePlayerJoin_def demo_defs
      initialService_def findPlayer_def FIXED_BUY_IN_def Let_def)


subsection \<open>Starting a hand\<close>

text \<open>
  Claim C8, as the code has it. For every start request made while fewer than 2 players
  are seated with chips, the failure is reported to all connections as a message of type
  \<open>error\<close> with a fixed text (not as a \<open>notification\<close>), and no state is changed:
  neither the table nor the registry.
\<close>

theorem failed_start_is_broadcast_as_error:
  assumes "seatedWithChips (table s) < 2"
  shows "onMessage E s sock (Some StartGame) =
           Run False s
             [ConsoleError [Lit ''Error starting new hand:'', Lit ''InsufficientPlayers''],
              ToAll (ErrorMsg
                [Lit ''Failed to start new hand. Make sure there are enough players.''])]"
  using assms
  by (simp add: onMessage_def handleMessage_def startNewHand_def Table_dealCards_def
      broadcast_def)

theorem failed_start_is_broadcast_as_error_witness:
  "seatedWithChips (table loneService) < 2
   \<and> onMessage demoEngine loneService 1 (Some StartGame) =
       Run False loneService
         [ConsoleError [Lit ''Error starting new hand:'', Lit ''InsufficientPlayers''],
          ToAll (ErrorMsg
            [Lit ''Failed to start new hand. Make sure there are enough players.''])]"
proof -
  have h: "seatedWithChips (table loneService) < 2"
    by (simp add: loneService_def loneTable_def preflopTable_def alice_def
        seatedWithChips_def seated_def)
  show ?thesis
    using failed_start_is_broadcast_as_error [OF h, of demoEngine 1] h by simp
qed

text \<open>
  Claim C8 as stated fails: with no player seated, the start request is answered by a
  broadcast of type \<open>error\<close>; no notification is sent.
\<close>

theorem failed_start_notification_counterexample:
  "sent (onMessage demoEngine (initialService demoEngine) 1 (Some StartGame)) =
     [ConsoleError [Lit ''Error starting new hand:'', Lit ''InsufficientPlayers''],
      ToAll (ErrorMsg [Lit ''Failed to start new hand. Make sure there are enough players.''])]
   \<and> ErrorMsg [Lit ''Failed to start new hand. Make sure there are enough players.'']
       \<noteq> NotificationMsg
           [Lit ''Failed to start new hand. Make sure there are enough players.'']"
  by (simp add: onMessage_def handleMessage_def startNewHand_def Table_dealCards_def
      broadcast_def demo_defs initialService_def)

subsection \<open>The public projection\<close>

lemma potTotal_hide: "potTotal (hideHoleCards t) = potTotal t"
  by (simp add: potTotal_def hideHoleCards_def foldl_map)

lemma isCurrentActor_hide: "isCurrentActor (hideHoleCards t) playerId = isCurrentActor t playerId"
  by (simp add: isCurrentActor_def hideHoleCards_def withoutHoleCards_def option.map_comp o_def)

lemma publicPlayerOf_hide:
  "publicPlayerOf reg (hideHoleCards t) (withoutHoleCards p) = publicPlayerOf reg t p"
  by (simp add: publicPlayerOf_def isCurrentActor_hide) (simp add: withoutHoleCards_def)

lemma getPublicPlayerStates_hide:
  "getPublicPlayerStates reg (hideHoleCards t) = getPublicPlayerStates reg t"
proof -
  have "players (hideHoleCards t) = map (map_option withoutHoleCards) (players t)"
    by (simp add: hideHoleCards_def)
  then show ?thesis
    by (simp add: getPublicPlayerStates_def option.map_comp o_def publicPlayerOf_hide)
qed

lemma publicGameState_hide: "publicGameState reg (hideHoleCards t) = publicGameState reg t"
proof -
  have "map_option player_id (currentActor (hideHoleCards t)) = map_option player_id (currentActor t)"
    by (simp add: hideHoleCards_def withoutHoleCards_def option.map_comp o_def)
  moreover have "communityCards (hideHoleCards t) = communityCards t"
    and "currentBet (hideHoleCards t) = currentBet t"
    and "currentRound (hideHoleCards t) = currentRound t"
    by (simp_all add: hideHoleCards_def)
  ultimately show ?thesis
    by (simp add: publicGameState_def potTotal_hide getPublicPlayerStates_hide)
qed

text \<open>
  Claim C3. The public game state and the players list carry, per seat, the id, the
  registered name, the stack, the bet, the folded flag and the whose-turn flag (the
  fields of \<open>publicPlayer\<close>), and beside them the community cards, the pot total, the
  current bet, the current actor's id and the current round. No hole card enters them:
  two tables that differ only in hole cards give the same two broadcasts.
\<close>

theorem public_broadcasts_hide_hole_cards:
  assumes "hideHoleCards t = hideHoleCards t'"
  shows "broadcast (PublicStateMsg (publicGameState reg t))
           = broadcast (PublicStateMsg (publicGameState reg t'))
       \<and> broadcast (PlayersMsg (getPublicPlayerStates reg t))
           = broadcast (PlayersMsg (getPublicPlayerStates reg t'))"
proof -
  have "publicGameState reg t = publicGameState reg (hideHoleCards t')"
    using publicGameState_hide [of reg t] assms by simp
  then have a: "publicGameState reg t = publicGameState reg t'"
    by (simp add: publicGameState_hide)
  have "getPublicPlayerStates reg t = getPublicPlayerStates reg (hideHoleCards t')"
    using getPublicPlayerStates_hide [of reg t] assms by simp
  then have b: "getPublicPlayerStates reg t = getPublicPlayerStates reg t'"
    by (simp add: getPublicPlayerStates_hide)
  show ?thesis using a b by simp
qed

theorem public_broadcasts_hide_hole_cards_witness:
  "hideHoleCards preflopTable = hideHoleCards otherDeal
   \<and> preflopTable \<noteq> otherDeal
   \<and> broadcast (PublicStateMsg (publicGameState twoPlayers preflopTable))
       = broadcast (PublicStateMsg (publicGameState twoPlayers otherDeal))
   \<and> broadcast (PlayersMsg (getPublicPlayerStates twoPlayers preflopTable))
       = broadcast (PlayersMsg (getPublicPlayerStates twoPlayers otherDeal))"
proof -
  have h: "hideHoleCards preflopTable = hideHoleCards otherDeal"
    by (simp add: hideHoleCards_def otherDeal_def preflopTable_def withoutHoleCards_def
        alice_def bob_def)
  have d: "preflopTable \<noteq> otherDeal"
    by (simp add: otherDeal_def preflopTable_def alice_def bob_def)
  show ?thesis
    using public_broadcasts_hide_hole_cards [OF h, of twoPlayers] h d by simp
qed

subsection \<open>The private projection\<close>

text \<open>
  The registry is a Map: its keys stay distinct under every handler.
\<close>

lemma autoFold_registry: "connectedPlayers (state (autoFold E s playerId err)) = connectedPlayers s"
  by (simp add: autoFold_def split: option.splits outcome.splits)

lemma registry_keys_distinct:
  assumes "distinct (map fst (connectedPlayers s))"
  shows "distinct (map fst (connectedPlayers (state (onMessage E s sock raw))))"
    and "distinct (map fst (connectedPlayers (state (onClose E s sock))))"
proof -
  have j: "distinct (map fst (connectedPlayers (state (handlePlayerJoin E s sock a b c))))" for a b c
    using assms
    by (simp add: handlePlayerJoin_def Let_def AList.distinct_update split: outcome.splits)
  have act: "distinct (map fst (connectedPlayers (state (handlePlayerAction E s a b c))))" for a b c
    using assms
    by (simp add: handlePlayerAction_def Let_def autoFold_registry
        split: outcome.splits option.splits)
  have st: "distinct (map fst (connectedPlayers (state (startNewHand E s))))"
    using assms by (simp add: startNewHand_def split: outcome.splits)
  have re: "distinct (map fst (connectedPlayers (state (restartGame E s))))"
    by (simp add: restartGame_def Let_def)
  have hm: "distinct (map fst (connectedPlayers (state (handleMessage E s sock m))))" for m
    using j act st re assms by (cases m) (simp_all add: handleMessage_def)
  show "distinct (map fst (connectedPlayers (state (onMessage E s sock raw))))"
    using hm assms by (cases raw) (simp_all add: onMessage_def Let_def)
  have lv: "distinct (map fst (connectedPlayers (state (handlePlayerLeave E s a))))" for a
    using assms
    by (simp add: handlePlayerLeave_def Let_def AList.distinct_delete
        split: outcome.splits option.splits)
  show "distinct (map fst (connectedPlayers (state (onClose E s sock))))"
    using lv assms by (simp add: onClose_def split: option.splits)
qed

lemma registry_initially_distinct: "distinct (map fst (connectedPlayers (initialService E)))"
  by (simp add: initialService_def)

lemma sendToPlayer_registered:
  "distinct (map fst reg) \<Longrightarrow> (playerId, cp) \<in> set reg \<Longrightarrow>
   sendToPlayer reg playerId m = [ToSocket (cp_socket cp) m]"
  by (simp add: sendToPlayer_def)

lemma concat_singletons:
  "concat (map (\<lambda>(k, v). [g k v]) xs) = map (\<lambda>(k, v). g k v) xs"
  by (induction xs) auto

lemma privateMessages_each:
  assumes "distinct (map fst reg)"
  shows "privateMessages E reg t =
           map (\<lambda>(playerId, cp).
                  ToSocket (cp_socket cp) (PrivateStateMsg (privateStateOf E t playerId))) reg"
proof -
  have eq: "map (\<lambda>(playerId, cp).
               sendToPlayer reg playerId (PrivateStateMsg (privateStateOf E t playerId))) reg
        = map (\<lambda>(playerId, cp).
                 [ToSocket (cp_socket cp) (PrivateStateMsg (privateStateOf E t playerId))]) reg"
    using assms by (intro map_cong) (auto simp: sendToPlayer_registered)
  have "privateMessages E reg t =
          concat (map (\<lambda>(playerId, cp).
                 [ToSocket (cp_socket cp) (PrivateStateMsg (privateStateOf E t playerId))]) reg)"
    unfolding privateMessages_def by (simp only: eq)
  also have "\<dots> = map (\<lambda>(playerId, cp).
                  ToSocket (cp_socket cp) (PrivateStateMsg (privateStateOf E t playerId))) reg"
    by (rule concat_singletons)
  finally show ?thesis .
qed


text \<open>
  Claim C9. Every broadcast of the state sends, after the public state, exactly one
  private message to each registry entry, on its own socket and in registry order. For
  the entry of \<open>playerId\<close> the message holds the hole cards of the seat with that id
  (none when the player is not seated), the legal actions of the current actor when
  \<open>playerId\<close> is the current actor and the empty list otherwise, the last raise (the big
  blind when there is none) as the minimum raise, and the stack of that seat (0 when not
  seated) as the maximum bet. No other player's cards or stack enter the message. This
  broadcast is what a started hand and an accepted action send.
\<close>

theorem private_state_is_the_players_own:
  assumes "distinct (map fst (connectedPlayers s))"
  shows "broadcastGameState E s =
           ToAll (PublicStateMsg (publicGameState (connectedPlayers s) (table s)))
           # map (\<lambda>(playerId, cp).
                    ToSocket (cp_socket cp)
                      (PrivateStateMsg (privateStateOf E (table s) playerId)))
                 (connectedPlayers s)
       \<and> (\<forall>t1. Table_dealCards E (table s) = Returns t1 \<longrightarrow>
              sent (onMessage E s sock (Some StartGame)) = broadcastGameState E (s\<lparr>table := t1\<rparr>))
       \<and> (\<forall>t1. tryAction E (table s) actor action amount = Returns t1 \<longrightarrow>
              sent (onMessage E s sock (Some (Action actor action amount))) =
                broadcastGameState E (s\<lparr>table := t1\<rparr>)
                @ (if currentRound t1 = None then handleHandComplete t1 else []))
       \<and> (\<forall>q. findPlayer t playerId = Some q \<longrightarrow>
              player_id q = playerId
            \<and> priv_holeCards (privateStateOf E t playerId) = holeCards q
            \<and> priv_maxBet (privateStateOf E t playerId) = stackSize q)
       \<and> (findPlayer t playerId = None \<longrightarrow>
              priv_holeCards (privateStateOf E t playerId) = None
            \<and> priv_maxBet (privateStateOf E t playerId) = 0)
       \<and> (\<not> isCurrentActor t playerId \<longrightarrow>
              priv_availableActions (privateStateOf E t playerId) = [])
       \<and> (\<forall>a. isCurrentActor t playerId \<and> currentActor t = Some a \<longrightarrow>
              priv_availableActions (privateStateOf E t playerId) = legalActions E a t)
       \<and> priv_minRaise (privateStateOf E t playerId)
           = (case lastRaise t of Some r \<Rightarrow> r | None \<Rightarrow> bigBlind t)"
proof -
  have all: "broadcastGameState E s =
           ToAll (PublicStateMsg (publicGameState (connectedPlayers s) (table s)))
           # map (\<lambda>(playerId, cp).
                    ToSocket (cp_socket cp)
                      (PrivateStateMsg (privateStateOf E (table s) playerId)))
                 (connectedPlayers s)"
    using privateMessages_each [OF assms, of E "table s"]
    by (simp add: broadcastGameState_def broadcast_def)
  have start: "\<forall>t1. Table_dealCards E (table s) = Returns t1 \<longrightarrow>
              sent (onMessage E s sock (Some StartGame)) = broadcastGameState E (s\<lparr>table := t1\<rparr>)"
    by (simp add: onMessage_def handleMessage_def startNewHand_def)
  have act: "\<forall>t1. tryAction E (table s) actor action amount = Returns t1 \<longrightarrow>
              sent (onMessage E s sock (Some (Action actor action amount))) =
                broadcastGameState E (s\<lparr>table := t1\<rparr>)
                @ (if currentRound t1 = None then handleHandComplete t1 else [])"
    by (simp add: onMessage_def handleMessage_def handlePlayerAction_def afterAction_def)
  have fields:
    "(\<forall>q. findPlayer t playerId = Some q \<longrightarrow>
              player_id q = playerId
            \<and> priv_holeCards (privateStateOf E t playerId) = holeCards q
            \<and> priv_maxBet (privateStateOf E t playerId) = stackSize q)
       \<and> (findPlayer t playerId = None \<longrightarrow>
              priv_holeCards (privateStateOf E t playerId) = None
            \<and> priv_maxBet (privateStateOf E t playerId) = 0)
       \<and> (\<not> isCurrentActor t playerId \<longrightarrow>
              priv_availableActions (privateStateOf E t playerId) = [])
       \<and> (\<forall>a. isCurrentActor t playerId \<and> currentActor t = Some a \<longrightarrow>
              priv_availableActions (privateStateOf E t playerId) = legalActions E a t)
       \<and> priv_minRaise (privateStateOf E t playerId)
           = (case lastRaise t of Some r \<Rightarrow> r | None \<Rightarrow> bigBlind t)"
    by (auto simp: privateStateOf_def availableActionsOf_def findPlayer_id Let_def)
  show ?thesis
    using all start act fields by (intro conjI) blast+
qed

theorem private_state_is_the_players_own_witness:
  "distinct (map fst (connectedPlayers preflopService))
   \<and> broadcastGameState demoEngine preflopService =
       [ToAll (PublicStateMsg (publicGameState twoPlayers preflopTable)),
        ToSocket 1 (PrivateStateMsg
          \<lparr> priv_holeCards = Some [Card ''A'' ''s'', Card ''K'' ''s''],
            priv_availableActions = [''call'', ''raise'', ''fold''],
            priv_minRaise = 10, priv_maxBet = 995 \<rparr>),
        ToSocket 2 (PrivateStateMsg
          \<lparr> priv_holeCards = Some [Card ''7'' ''d'', Card ''2'' ''c''],
            priv_availableActions = [],
            priv_minRaise = 10, priv_maxBet = 990 \<rparr>)]"
proof -
  have d: "distinct (map fst (connectedPlayers preflopService))"
    by (simp add: preflopService_def twoPlayers_def)
  have "broadcastGameState demoEngine preflopService =
           ToAll (PublicStateMsg (publicGameState (connectedPlayers preflopService)
                                    (table preflopService)))
           # map (\<lambda>(playerId, cp).
                    ToSocket (cp_socket cp)
                      (PrivateStateMsg (privateStateOf demoEngine (table preflopService) playerId)))
                 (connectedPlayers preflopService)"
    using private_state_is_the_players_own [OF d, of demoEngine 0 "''x''" "''y''" None preflopTable "''alice''"]
    by (rule conjunct1)
  also have "\<dots> = [ToAll (PublicStateMsg (publicGameState twoPlayers preflopTable)),
        ToSocket 1 (PrivateStateMsg
          \<lparr> priv_holeCards = Some [Card ''A'' ''s'', Card ''K'' ''s''],
            priv_availableActions = [''call'', ''raise'', ''fold''],
            priv_minRaise = 10, priv_maxBet = 995 \<rparr>),
        ToSocket 2 (PrivateStateMsg
          \<lparr> priv_holeCards = Some [Card ''7'' ''d'', Card ''2'' ''c''],
            priv_availableActions = [],
            priv_minRaise = 10, priv_maxBet = 990 \<rparr>)]"
    by (simp add: preflopService_def)
       (simp add: twoPlayers_def preflopTable_def alice_def bob_def privateStateOf_def
        availableActionsOf_def findPlayer_def isCurrentActor_def demo_defs Let_def)
  finally show ?thesis using d by simp
qed

subsection \<open>The check on a raise\<close>

text \<open>
  A raise of the player to act passes two checks: the service's own (an amount is given,
  and the increase is at least the big blind unless the raise is all-in or the completion
  of the small blind) and the engine's (section 4.3 of the specification).
\<close>

lemma raise_attempt:
  assumes seat: "findPlayer t playerId = Some p"
      and turn: "isCurrentActor t playerId"
  shows "tryAction E t playerId ''raise'' amount =
           (case amount of
              None \<Rightarrow> Throws [Lit ''Amount required for raise''] t
            | Some a \<Rightarrow>
                if \<not> isAllIn amount p \<and> \<not> isRaisingToBigBlind t p a
                   \<and> raiseAmount t a < bigBlind t
                then Throws [Lit ''Raise must increase the current bet by at least the big blind ('',
                             Num (bigBlind t), Lit '')''] t
                else if raiseLegal t p a then Returns (raiseAction E p a t)
                else Throws [Lit ''IllegalAction''] t)"
proof -
  have "player_id p = playerId" using seat by (rule findPlayer_id)
  then show ?thesis
    using assms
    by (simp add: tryAction_def raiseCheck_def Player_raiseAction_def validated_def
        split: option.splits)
qed

text \<open>
  Claim C4. For a raise request of the player to act: the raise is applied (the attempt
  returns; the handler sends no error) only if an amount is given and the increase over
  the current bet is at least the last raise (the big blind when there is none), or the
  amount is the player's whole stack, or it is the completion of the small blind to the
  big blind before the flop. Otherwise the request fails as an illegal action, with the
  table as it was: the player is sent the error and is folded (or, without a registry
  entry, the sender is told that the message format is invalid). And a raise that is
  legal for the engine and passes the service's own check is applied.
\<close>

theorem raise_needs_last_raise_increase:
  assumes seat: "findPlayer (table s) playerId = Some p"
      and turn: "isCurrentActor (table s) playerId"
  shows "(\<forall>t'. tryAction E (table s) playerId ''raise'' amount = Returns t' \<longrightarrow>
            (\<exists>a. amount = Some a \<and> t' = raiseAction E p a (table s)
                 \<and> (minRaiseOf (table s) \<le> raiseAmount (table s) a
                      \<or> isAllIn amount p \<or> isRaisingToBigBlind (table s) p a)))
       \<and> ((\<forall>x e. ToSocket x (ErrorMsg e)
                     \<notin> set (sent (onMessage E s sock (Some (Action playerId ''raise'' amount))))) \<longrightarrow>
            (\<exists>a. amount = Some a
                 \<and> (minRaiseOf (table s) \<le> raiseAmount (table s) a
                      \<or> isAllIn amount p \<or> isRaisingToBigBlind (table s) p a)))
       \<and> ((\<forall>a. amount = Some a \<longrightarrow>
               raiseAmount (table s) a < minRaiseOf (table s)
               \<and> \<not> isAllIn amount p \<and> \<not> isRaisingToBigBlind (table s) p a) \<longrightarrow>
            (\<exists>err. tryAction E (table s) playerId ''raise'' amount = Throws err (table s)
               \<and> onMessage E s sock (Some (Action playerId ''raise'' amount)) =
                   (case map_of (connectedPlayers s) playerId of
                      Some cp \<Rightarrow>
                        Run False (s\<lparr>table := foldAction E p (table s)\<rparr>)
                          (ToSocket (cp_socket cp) (ErrorMsg err)
                           # ToAll (NotificationMsg
                                ([Lit (displayName (connectedPlayers s) playerId),
                                  Lit '' auto-folded due to invalid action: ''] @ err))
                           # afterAction E (s\<lparr>table := foldAction E p (table s)\<rparr>))
                    | None \<Rightarrow>
                        Run False s [ToSocket sock (ErrorMsg [Lit ''Invalid message format''])])))
       \<and> (\<forall>a. amount = Some a \<and> raiseLegal (table s) p a
               \<and> (bigBlind (table s) \<le> raiseAmount (table s) a
                    \<or> isAllIn amount p \<or> isRaisingToBigBlind (table s) p a) \<longrightarrow>
            onMessage E s sock (Some (Action playerId ''raise'' amount)) =
              Run False (s\<lparr>table := raiseAction E p a (table s)\<rparr>)
                (afterAction E (s\<lparr>table := raiseAction E p a (table s)\<rparr>)))"
proof -
  note att = raise_attempt [OF seat turn, of E amount]
  have pid: "player_id p = playerId" using seat by (rule findPlayer_id)
  have fold: "Player_foldAction E p (table s) = Returns (foldAction E p (table s))"
    using turn pid by (simp add: Player_foldAction_actor)
  have only_if: "\<forall>t'. tryAction E (table s) playerId ''raise'' amount = Returns t' \<longrightarrow>
            (\<exists>a. amount = Some a \<and> t' = raiseAction E p a (table s)
                 \<and> (minRaiseOf (table s) \<le> raiseAmount (table s) a
                      \<or> isAllIn amount p \<or> isRaisingToBigBlind (table s) p a))"
    unfolding att by (auto simp: raiseLegal_def split: option.splits if_splits)
  have rejected: "\<exists>err. tryAction E (table s) playerId ''raise'' amount = Throws err (table s)
               \<and> onMessage E s sock (Some (Action playerId ''raise'' amount)) =
                   (case map_of (connectedPlayers s) playerId of
                      Some cp \<Rightarrow>
                        Run False (s\<lparr>table := foldAction E p (table s)\<rparr>)
                          (ToSocket (cp_socket cp) (ErrorMsg err)
                           # ToAll (NotificationMsg
                                ([Lit (displayName (connectedPlayers s) playerId),
                                  Lit '' auto-folded due to invalid action: ''] @ err))
                           # afterAction E (s\<lparr>table := foldAction E p (table s)\<rparr>))
                    | None \<Rightarrow>
                        Run False s [ToSocket sock (ErrorMsg [Lit ''Invalid message format''])])"
    if low: "\<forall>a. amount = Some a \<longrightarrow>
               raiseAmount (table s) a < minRaiseOf (table s)
               \<and> \<not> isAllIn amount p \<and> \<not> isRaisingToBigBlind (table s) p a"
  proof -
    have "\<exists>err. tryAction E (table s) playerId ''raise'' amount = Throws err (table s)"
      unfolding att using low by (cases amount) (auto simp: raiseLegal_def)
    then obtain err
      where thr: "tryAction E (table s) playerId ''raise'' amount = Throws err (table s)" ..
    show ?thesis
      using thr seat turn fold
      by (auto simp: onMessage_def handleMessage_def handlePlayerAction_def autoFold_def
          sendError_def broadcast_def split: option.splits)
  qed
  have accepted: "\<forall>a. amount = Some a \<and> raiseLegal (table s) p a
               \<and> (bigBlind (table s) \<le> raiseAmount (table s) a
                    \<or> isAllIn amount p \<or> isRaisingToBigBlind (table s) p a) \<longrightarrow>
            onMessage E s sock (Some (Action playerId ''raise'' amount)) =
              Run False (s\<lparr>table := raiseAction E p a (table s)\<rparr>)
                (afterAction E (s\<lparr>table := raiseAction E p a (table s)\<rparr>))"
  proof (intro allI impI)
    fix a
    assume h: "amount = Some a \<and> raiseLegal (table s) p a
               \<and> (bigBlind (table s) \<le> raiseAmount (table s) a
                    \<or> isAllIn amount p \<or> isRaisingToBigBlind (table s) p a)"
    then have "tryAction E (table s) playerId ''raise'' amount
                 = Returns (raiseAction E p a (table s))"
      unfolding att by auto
    then show "onMessage E s sock (Some (Action playerId ''raise'' amount)) =
              Run False (s\<lparr>table := raiseAction E p a (table s)\<rparr>)
                (afterAction E (s\<lparr>table := raiseAction E p a (table s)\<rparr>))"
      by (simp add: onMessage_def handleMessage_def handlePlayerAction_def)
  qed
  have no_error: "\<exists>a. amount = Some a
                 \<and> (minRaiseOf (table s) \<le> raiseAmount (table s) a
                      \<or> isAllIn amount p \<or> isRaisingToBigBlind (table s) p a)"
    if quiet: "\<forall>x e. ToSocket x (ErrorMsg e)
                     \<notin> set (sent (onMessage E s sock (Some (Action playerId ''raise'' amount))))"
  proof (rule ccontr)
    assume "\<not> (\<exists>a. amount = Some a
                 \<and> (minRaiseOf (table s) \<le> raiseAmount (table s) a
                      \<or> isAllIn amount p \<or> isRaisingToBigBlind (table s) p a))"
    then have "\<forall>a. amount = Some a \<longrightarrow>
               raiseAmount (table s) a < minRaiseOf (table s)
               \<and> \<not> isAllIn amount p \<and> \<not> isRaisingToBigBlind (table s) p a"
      by auto
    from rejected [OF this] obtain err
      where "onMessage E s sock (Some (Action playerId ''raise'' amount)) =
                   (case map_of (connectedPlayers s) playerId of
                      Some cp \<Rightarrow>
                        Run False (s\<lparr>table := foldAction E p (table s)\<rparr>)
                          (ToSocket (cp_socket cp) (ErrorMsg err)
                           # ToAll (NotificationMsg
                                ([Lit (displayName (connectedPlayers s) playerId),
                                  Lit '' auto-folded due to invalid action: ''] @ err))
                           # afterAction E (s\<lparr>table := foldAction E p (table s)\<rparr>))
                    | None \<Rightarrow>
                        Run False s [ToSocket sock (ErrorMsg [Lit ''Invalid message format''])])"
      by blast
    then have "\<exists>x e. ToSocket x (ErrorMsg e)
                 \<in> set (sent (onMessage E s sock (Some (Action playerId ''raise'' amount))))"
      by (cases "map_of (connectedPlayers s) playerId") auto
    with quiet show False by blast
  qed
  show ?thesis
    using only_if no_error rejected accepted by (intro conjI impI) blast+
qed

theorem raise_needs_last_raise_increase_witness:
  "findPlayer (table raisedService) ''bob'' = Some bob
   \<and> isCurrentActor (table raisedService) ''bob''
   \<and> minRaiseOf raisedTable = 40
   \<and> raiseAmount raisedTable 60 = 10
   \<and> tryAction demoEngine raisedTable ''bob'' ''raise'' (Some 60)
       = Throws [Lit ''IllegalAction''] raisedTable
   \<and> onMessage demoEngine raisedService 2 (Some (Action ''bob'' ''raise'' (Some 60))) =
       Run False (raisedService\<lparr>table := foldAction demoEngine bob raisedTable\<rparr>)
         (ToSocket 2 (ErrorMsg [Lit ''IllegalAction''])
          # ToAll (NotificationMsg [Lit ''Bob'', Lit '' auto-folded due to invalid action: '',
                                    Lit ''IllegalAction''])
          # afterAction demoEngine
              (raisedService\<lparr>table := foldAction demoEngine bob raisedTable\<rparr>))
   \<and> raiseAmount raisedTable 90 = 40
   \<and> onMessage demoEngine raisedService 2 (Some (Action ''bob'' ''raise'' (Some 90))) =
       Run False (raisedService\<lparr>table := raiseAction demoEngine bob 90 raisedTable\<rparr>)
         (afterAction demoEngine
            (raisedService\<lparr>table := raiseAction demoEngine bob 90 raisedTable\<rparr>))"
proof -
  have tab: "table raisedService = raisedTable"
    by (simp add: raisedService_def)
  have seat: "findPlayer (table raisedService) ''bob'' = Some bob"
    by (simp add: raisedService_def raisedTable_def example_defs findPlayer_def)
  have turn: "isCurrentActor (table raisedService) ''bob''"
    by (simp add: raisedService_def raisedTable_def example_defs isCurrentActor_def)
  have conn: "map_of (connectedPlayers raisedService) ''bob''
                = Some \<lparr> cp_id = ''bob'', cp_name = ''Bob'', cp_socket = 2 \<rparr>"
    by (simp add: raisedService_def twoPlayers_def)
  have name: "displayName (connectedPlayers raisedService) ''bob'' = ''Bob''"
    by (simp add: displayName_def conn)
  have m60: "jsMinus 60 50 = 10" by code_simp
  have m90: "jsMinus 90 50 = 40" by code_simp
  have mr: "minRaiseOf raisedTable = 40"
    by (simp add: minRaiseOf_def raisedTable_def preflopTable_def)
  have r60: "raiseAmount raisedTable 60 = 10"
    by (simp add: raiseAmount_def raisedTable_def preflopTable_def m60)
  have r90: "raiseAmount raisedTable 90 = 40"
    by (simp add: raiseAmount_def raisedTable_def preflopTable_def m90)
  have notall: "\<not> isAllIn (Some 60) bob" "\<not> isAllIn (Some 90) bob"
    by (simp_all add: isAllIn_def bob_def)
  have notsb: "\<not> isRaisingToBigBlind raisedTable bob 60" "\<not> isRaisingToBigBlind raisedTable bob 90"
    by (simp_all add: isRaisingToBigBlind_def raisedTable_def preflopTable_def bob_def)
  have legal90: "raiseLegal raisedTable bob 90"
    by (simp add: raiseLegal_def mr r90) (simp add: tableBet_def raisedTable_def preflopTable_def)
  have bb: "bigBlind raisedTable = 10"
    by (simp add: raisedTable_def preflopTable_def)
  note thm60 = raise_needs_last_raise_increase [OF seat turn, of demoEngine "Some 60" 2]
  note thm90 = raise_needs_last_raise_increase [OF seat turn, of demoEngine "Some 90" 2]
  have try60: "tryAction demoEngine raisedTable ''bob'' ''raise'' (Some 60)
       = Throws [Lit ''IllegalAction''] raisedTable"
    using raise_attempt [OF seat turn, of demoEngine "Some 60"]
    by (simp add: tab r60 bb notall notsb raiseLegal_def mr)
  from thm60 [THEN conjunct2, THEN conjunct2, THEN conjunct1]
  have "\<exists>err. tryAction demoEngine (table raisedService) ''bob'' ''raise'' (Some 60)
                 = Throws err (table raisedService)
               \<and> onMessage demoEngine raisedService 2 (Some (Action ''bob'' ''raise'' (Some 60))) =
                   Run False (raisedService\<lparr>table := foldAction demoEngine bob (table raisedService)\<rparr>)
                     (ToSocket 2 (ErrorMsg err)
                      # ToAll (NotificationMsg
                           ([Lit ''Bob'', Lit '' auto-folded due to invalid action: ''] @ err))
                      # afterAction demoEngine
                          (raisedService\<lparr>table := foldAction demoEngine bob (table raisedService)\<rparr>))"
    by (simp add: tab r60 mr notall notsb conn name)
  then have on60: "onMessage demoEngine raisedService 2 (Some (Action ''bob'' ''raise'' (Some 60))) =
       Run False (raisedService\<lparr>table := foldAction demoEngine bob raisedTable\<rparr>)
         (ToSocket 2 (ErrorMsg [Lit ''IllegalAction''])
          # ToAll (NotificationMsg [Lit ''Bob'', Lit '' auto-folded due to invalid action: '',
                                    Lit ''IllegalAction''])
          # afterAction demoEngine
              (raisedService\<lparr>table := foldAction demoEngine bob raisedTable\<rparr>))"
    using try60 by (auto simp: tab)
  from thm90 [THEN conjunct2, THEN conjunct2, THEN conjunct2]
  have on90: "onMessage demoEngine raisedService 2 (Some (Action ''bob'' ''raise'' (Some 90))) =
       Run False (raisedService\<lparr>table := raiseAction demoEngine bob 90 raisedTable\<rparr>)
         (afterAction demoEngine
            (raisedService\<lparr>table := raiseAction demoEngine bob 90 raisedTable\<rparr>))"
    using legal90 by (simp add: tab r90 bb)
  show ?thesis
    using seat turn mr r60 try60 on60 r90 on90 by (intro conjI)
qed

subsection \<open>The amounts of the handComplete message\<close>

lemma winnerAmount_nil: "winnerAmount [] w = 0"
  by (simp add: winnerAmount_def)

lemma winnerAmount_step:
  "winnerAmount (qs @ [q]) w =
     (if potIncludes q w
      then jsPlus (winnerAmount qs w) (jsDivide (pot_amount q) (of_nat (potWinnerCount q)))
      else winnerAmount qs w)"
  by (simp add: winnerAmount_def)

lemma winnerAmount_same_pots:
  assumes "\<forall>q \<in> set qs. potIncludes q w = potIncludes q w'"
  shows "winnerAmount qs w = winnerAmount qs w'"
  using assms
proof (induction qs rule: rev_induct)
  case Nil
  show ?case by (simp add: winnerAmount_nil)
next
  case (snoc q qs)
  then show ?case by (simp add: winnerAmount_step)
qed

text \<open>
  Claim C6, as the code has it. The handComplete message lists the winners of the table
  in order. The amount reported for a winner is built pot by pot, in JavaScript's
  arithmetic: a pot that lists the winner adds its amount divided by the number of its
  winners. Every winner of a pot is credited this same share; nothing is rounded to an
  integer and no remainder goes to the earliest-acting or any other winner, so that two
  winners of the same pots are reported the same amount.
\<close>

theorem hand_complete_amounts:
  assumes win: "winners t = Some ws"
  shows "handleHandComplete t =
           [ToAll (HandCompleteMsg
              (Some (map (\<lambda>w. (player_id w, winnerAmount (pots t) w)) ws)))]
       \<and> winnerAmount [] w = 0
       \<and> (\<forall>qs q. winnerAmount (qs @ [q]) w =
             (if potIncludes q w
              then jsPlus (winnerAmount qs w)
                     (jsDivide (pot_amount q) (of_nat (potWinnerCount q)))
              else winnerAmount qs w))
       \<and> (\<forall>q pw. pot_winners q = Some pw \<and> w \<in> set pw \<longrightarrow>
             potIncludes q w \<and> potWinnerCount q = length pw)
       \<and> (\<forall>w'. (\<forall>q \<in> set (pots t). potIncludes q w = potIncludes q w') \<longrightarrow>
             winnerAmount (pots t) w = winnerAmount (pots t) w')"
proof -
  have msg: "handleHandComplete t =
           [ToAll (HandCompleteMsg
              (Some (map (\<lambda>w. (player_id w, winnerAmount (pots t) w)) ws)))]"
    by (simp add: handleHandComplete_def broadcast_def win)
  have count: "\<forall>q pw. pot_winners q = Some pw \<and> w \<in> set pw \<longrightarrow>
             potIncludes q w \<and> potWinnerCount q = length pw"
    by (auto simp: potIncludes_def potWinnerCount_def)
  show ?thesis
    using msg count winnerAmount_nil [of w] winnerAmount_step [of _ _ w]
      winnerAmount_same_pots [of "pots t" w]
    by (intro conjI) blast+
qed

theorem hand_complete_amounts_witness:
  "winners splitPotTable = Some [alice, bob]
   \<and> handleHandComplete splitPotTable =
       [ToAll (HandCompleteMsg (Some [(''alice'', 25 / 2), (''bob'', 25 / 2)]))]
   \<and> winnerAmount (pots splitPotTable) alice = winnerAmount (pots splitPotTable) bob"
proof -
  have win: "winners splitPotTable = Some [alice, bob]"
    by (simp add: splitPotTable_def)
  note inst = hand_complete_amounts [OF win, of alice]
  have half: "jsPlus 0 (jsDivide 25 2) = 25 / 2"
    by code_simp
  have a: "winnerAmount (pots splitPotTable) alice = 25 / 2"
    by (simp add: splitPotTable_def winnerAmount_def potIncludes_def potWinnerCount_def half)
  have b: "winnerAmount (pots splitPotTable) bob = 25 / 2"
    by (simp add: splitPotTable_def winnerAmount_def potIncludes_def potWinnerCount_def half)
  have same: "\<forall>q \<in> set (pots splitPotTable). potIncludes q alice = potIncludes q bob"
    by (simp add: splitPotTable_def potIncludes_def)
  have eq: "winnerAmount (pots splitPotTable) alice = winnerAmount (pots splitPotTable) bob"
    using inst same by blast
  have "handleHandComplete splitPotTable =
          [ToAll (HandCompleteMsg
             (Some (map (\<lambda>w. (player_id w, winnerAmount (pots splitPotTable) w)) [alice, bob])))]"
    using inst by (rule conjunct1)
  then have msg: "handleHandComplete splitPotTable =
       [ToAll (HandCompleteMsg (Some [(''alice'', 25 / 2), (''bob'', 25 / 2)]))]"
    by (simp add: a b) (simp add: alice_def bob_def)
  show ?thesis using win msg eq by (intro conjI)
qed

text \<open>
  Claim C6 as stated fails. A pot of 25 with two winners is reported as 12.5 for each:
  neither amount is an integer, and the earlier winner does not get 13 with the other
  getting 12. Pots of 100 and 10 with three winners are reported as 36.66666666666667
  for each, and three times that is not 110, neither exactly nor in JavaScript's
  addition (110.00000000000001).
\<close>

theorem hand_complete_integer_split_counterexample:
  "handleHandComplete splitPotTable =
     [ToAll (HandCompleteMsg (Some [(''alice'', 25 / 2), (''bob'', 25 / 2)]))]
   \<and> (25 / 2 :: rat) \<noteq> 13 \<and> (25 / 2 :: rat) \<noteq> 12 \<and> (25 / 2 :: rat) \<notin> \<int>
   \<and> handleHandComplete threeWayTable =
       [ToAll (HandCompleteMsg
          (Some [(''alice'', 2580187286514347 / 70368744177664),
                 (''bob'', 2580187286514347 / 70368744177664),
                 (''carol'', 2580187286514347 / 70368744177664)]))]
   \<and> potTotal threeWayTable = 110
   \<and> (2580187286514347 / 70368744177664 + 2580187286514347 / 70368744177664
        + 2580187286514347 / 70368744177664 :: rat) \<noteq> 110
   \<and> jsPlus (jsPlus (2580187286514347 / 70368744177664) (2580187286514347 / 70368744177664))
        (2580187286514347 / 70368744177664) \<noteq> 110"
proof -
  have half_not_int: "(25 / 2 :: rat) \<notin> \<int>"
  proof
    assume "(25 / 2 :: rat) \<in> \<int>"
    then obtain n :: int where "(25 / 2 :: rat) = of_int n" by (auto elim: Ints_cases)
    then have "(of_int (2 * n) :: rat) = of_int 25" by simp
    then have "2 * n = 25" by (simp only: of_int_eq_iff)
    then show False by presburger
  qed
  have half: "jsPlus 0 (jsDivide 25 2) = 25 / 2"
    by code_simp
  have two: "handleHandComplete splitPotTable =
     [ToAll (HandCompleteMsg (Some [(''alice'', 25 / 2), (''bob'', 25 / 2)]))]"
    by (simp add: handleHandComplete_def splitPotTable_def winnerAmount_def
        potIncludes_def potWinnerCount_def broadcast_def half)
       (simp add: alice_def bob_def)
  have third: "jsPlus (jsPlus 0 (jsDivide 100 3)) (jsDivide 10 3)
                 = 2580187286514347 / 70368744177664"
    by code_simp
  have three: "handleHandComplete threeWayTable =
       [ToAll (HandCompleteMsg
          (Some [(''alice'', 2580187286514347 / 70368744177664),
                 (''bob'', 2580187286514347 / 70368744177664),
                 (''carol'', 2580187286514347 / 70368744177664)]))]"
    by (simp add: handleHandComplete_def threeWayTable_def winnerAmount_def
        potIncludes_def potWinnerCount_def broadcast_def third)
       (simp add: alice_def bob_def carol_def)
  have total: "jsPlus (jsPlus 0 100) 10 = 110"
    by code_simp
  have pot: "potTotal threeWayTable = 110"
    by (simp add: potTotal_def threeWayTable_def total)
  have exact: "(2580187286514347 / 70368744177664 + 2580187286514347 / 70368744177664
        + 2580187286514347 / 70368744177664 :: rat) \<noteq> 110"
    by simp
  have float: "jsPlus (jsPlus (2580187286514347 / 70368744177664) (2580187286514347 / 70368744177664))
        (2580187286514347 / 70368744177664) = 7740561859543041 / 70368744177664"
    by code_simp
  have float_ne: "jsPlus (jsPlus (2580187286514347 / 70368744177664) (2580187286514347 / 70368744177664))
        (2580187286514347 / 70368744177664) \<noteq> 110"
    unfolding float by simp
  show ?thesis
    using two half_not_int three pot exact float_ne by simp
qed

end
